theory Spec2Isabelle
  imports Main "HOL-Library.Sublist"
begin

section \<open>Live preview server: connection bookkeeping and server orchestration\<close>

text \<open>
  A shallow embedding of \<^verbatim>\<open>connectionInfo/connection.ts\<close> (classes \<^verbatim>\<open>Connection\<close> and
  \<^verbatim>\<open>serverPortAttributesProvider\<close>) and of the \<^verbatim>\<open>Server\<close> orchestrator class.

  Conventions.
  \<^item> A JavaScript \<^verbatim>\<open>number\<close> that holds a port is an \<open>int\<close>; the only arithmetic on
    it is \<^verbatim>\<open>port + 1\<close>, and the only tests are \<^verbatim>\<open>==\<close> and truthiness (non-zero).
  \<^item> A JavaScript string is a \<open>string\<close> (a list of code units); \<^verbatim>\<open>s.substring(n)\<close> and
    \<^verbatim>\<open>s.substr(n)\<close> with \<open>0 \<le> n\<close> are \<open>drop n s\<close>, \<^verbatim>\<open>s.startsWith(t)\<close> is \<open>prefix t s\<close>.
  \<^item> \<^verbatim>\<open>T | undefined\<close> is \<open>T option\<close>. A string is truthy when it is defined and non-empty,
    an object when it is defined.
  \<^item> Every call on a collaborator (HTTP server, WebSocket server, status bar, message
    windows) and every event fired is appended to a log of \<open>effect\<close>s, oldest first, so that
    "how many times" and "in which order" are properties of that log.
\<close>

subsection \<open>Values shared by both classes\<close>

text \<open>\<^verbatim>\<open>vscode.Uri\<close>: only its identity matters here.\<close>

datatype Uri = Uri string

text \<open>\<^verbatim>\<open>vscode.WorkspaceFolder\<close>: the folder's \<^verbatim>\<open>uri\<close>.\<close>

datatype WorkspaceFolder = WorkspaceFolder Uri

text \<open>\<^verbatim>\<open>export interface PortInfo { port?: number; ws_port?: number; }\<close>\<close>

record PortInfo =
  port :: "int option"
  ws_port :: "int option"

text \<open>
  Modelled from the spec: the enumeration \<^verbatim>\<open>AutoRefreshPreview\<close> is declared in
  \<^verbatim>\<open>utils/settingsUtil\<close>, which is not among the sources. The specification lists the
  policies \<^verbatim>\<open>off | onSave | onAnyChange\<close>; the source reads the members \<^verbatim>\<open>onAnyChange\<close> and
  \<^verbatim>\<open>onSave\<close>.
\<close>

datatype AutoRefreshPreview = off | onSave | onAnyChange

text \<open>
  The settings \<^verbatim>\<open>GetConfig(extensionUri)\<close> returns, as far as the server reads them.
\<close>

record Config =
  autoRefreshPreview :: AutoRefreshPreview
  showServerStatusPopUps :: bool

text \<open>The two status messages \<^verbatim>\<open>showServerStatusMessage\<close> is called with.\<close>

datatype statusMessage = ServerClosed | ServerOpenedOnPort int

text \<open>\<^verbatim>\<open>vscode.PortAutoForwardAction\<close> and \<^verbatim>\<open>vscode.PortAttributes\<close>.\<close>

datatype PortAutoForwardAction = Notify | OpenBrowser | OpenPreview | Silent | Ignore

datatype PortAttributes = PortAttributes PortAutoForwardAction

text \<open>Observable effects, in the order the code performs them.\<close>

datatype effect =
    ShowWarningMessage string
  | ShowErrorMessage string string
  | ShowInformationMessage statusMessage
  | Http_setInjectorWSPort int "Uri option"
  | Http_start int string
  | Http_close
  | Ws_start int string "Uri option"
  | Ws_close
  | Ws_refreshBrowsers
  | StatusBar_ServerOn int
  | StatusBar_ServerOff
  | Fire_onPortChange PortInfo
  | Fire_onFullyConnected int
  | Fire_onShouldResetInitHost string

fun is_refresh :: "effect \<Rightarrow> bool" where
  "is_refresh Ws_refreshBrowsers = True"
| "is_refresh _ = False"

fun is_warning :: "effect \<Rightarrow> bool" where
  "is_warning (ShowWarningMessage _) = True"
| "is_warning _ = False"

fun is_setInjector :: "effect \<Rightarrow> bool" where
  "is_setInjector (Http_setInjectorWSPort _ _) = True"
| "is_setInjector _ = False"

fun is_fullyConnected :: "effect \<Rightarrow> bool" where
  "is_fullyConnected (Fire_onFullyConnected _) = True"
| "is_fullyConnected _ = False"

fun is_resetInitHost :: "effect \<Rightarrow> bool" where
  "is_resetInitHost (Fire_onShouldResetInitHost _) = True"
| "is_resetInitHost _ = False"

subsection \<open>\<^verbatim>\<open>serverPortAttributesProvider\<close>\<close>

record serverPortAttributesProvider =
  wsPort :: int
  httpPort :: int

text \<open>Field initialisers \<^verbatim>\<open>public wsPort = 0; public httpPort = 0;\<close>\<close>

definition new_serverPortAttributesProvider :: serverPortAttributesProvider where
  "new_serverPortAttributesProvider = \<lparr>wsPort = 0, httpPort = 0\<rparr>"

text \<open>
  \<^verbatim>\<open>providePortAttributes(port, pid, commandLine, token)\<close>; the cancellation token is not read
  and is left out. \<open>None\<close> is \<^verbatim>\<open>undefined\<close>.
\<close>

definition providePortAttributes ::
  "serverPortAttributesProvider \<Rightarrow> int \<Rightarrow> int option \<Rightarrow> string option \<Rightarrow> PortAttributes option" where
  "providePortAttributes this p pid commandLine =
     (if p = wsPort this \<or> p = httpPort this then Some (PortAttributes Silent) else None)"

subsection \<open>Helpers of \<^verbatim>\<open>utils/pathUtil\<close> and \<^verbatim>\<open>utils/constants\<close>\<close>

text \<open>
  JavaScript truthiness of a \<^verbatim>\<open>string | undefined\<close>: defined and not the empty string.
\<close>

definition truthy :: "string option \<Rightarrow> bool" where
  "truthy v = (case v of None \<Rightarrow> False | Some s \<Rightarrow> s \<noteq> [])"

text \<open>\<^verbatim>\<open>v ?? ""\<close>\<close>

definition orEmpty :: "string option \<Rightarrow> string" where
  "orEmpty v = (case v of None \<Rightarrow> [] | Some s \<Rightarrow> s)"

text \<open>
  Modelled from the spec: \<^verbatim>\<open>PathUtil.ConvertToPosixPath\<close> (\<^verbatim>\<open>utils/pathUtil\<close> is not among the
  sources). The result is "POSIX-normalized": every separator \<open>sep\<close> of the operating
  system is written \<^verbatim>\<open>/\<close>.
\<close>

definition ConvertToPosixPath :: "char \<Rightarrow> string \<Rightarrow> string" where
  "ConvertToPosixPath sep p = map (\<lambda>c. if c = sep then CHR ''/'' else c) p"

text \<open>
  Modelled from the spec: \<^verbatim>\<open>PathUtil.PathBeginsWith(path, root)\<close> (\<^verbatim>\<open>utils/pathUtil\<close> is not
  among the sources). The specification asks for a prefix match on the operating
  system's form of the paths that is "path-segment-aware" and "must not falsely match
  sibling directories sharing a string prefix": \<open>root\<close> is a prefix of \<open>path\<close>, and the
  prefix ends at a segment boundary (the path ends there, the root ends with the
  separator, or the next character of the path is the separator).
\<close>

definition PathBeginsWith :: "char \<Rightarrow> string \<Rightarrow> string \<Rightarrow> bool" where
  "PathBeginsWith sep path root =
     (prefix root path \<and>
      (case drop (length root) path of
         [] \<Rightarrow> True
       | c # _ \<Rightarrow> c = sep \<or> (root \<noteq> [] \<and> last root = sep)))"

subsection \<open>\<^verbatim>\<open>Connection\<close>\<close>

text \<open>
  The fields of the class; \<open>c_httpPort\<close> and \<open>c_wsPort\<close> are the private \<^verbatim>\<open>_httpPort\<close> and
  \<^verbatim>\<open>_wsPort\<close>, \<open>emitted\<close> is the log of what the connection showed and fired.
\<close>

record Connection =
  workspace :: "WorkspaceFolder option"
  rootPrefix :: string
  c_httpPort :: int
  c_wsPort :: int
  host :: string
  wsPath :: string
  portAttributes :: serverPortAttributesProvider
  emitted :: "effect list"

text \<open>The constructor: the port attributes provider is created with its own initial ports.\<close>

definition new_Connection ::
  "WorkspaceFolder option \<Rightarrow> string \<Rightarrow> int \<Rightarrow> int \<Rightarrow> string \<Rightarrow> Connection" where
  "new_Connection workspace' rootPrefix' httpPort' wsPort' host' =
     \<lparr>workspace = workspace', rootPrefix = rootPrefix', c_httpPort = httpPort',
      c_wsPort = wsPort', host = host', wsPath = [],
      portAttributes = new_serverPortAttributesProvider, emitted = []\<rparr>"

text \<open>\<^verbatim>\<open>set httpPort(port)\<close> and \<^verbatim>\<open>set wsPort(port)\<close>\<close>

definition set_httpPort :: "int \<Rightarrow> Connection \<Rightarrow> Connection" where
  "set_httpPort p this =
     this\<lparr>c_httpPort := p, portAttributes := (portAttributes this)\<lparr>httpPort := p\<rparr>\<rparr>"

definition set_wsPort :: "int \<Rightarrow> Connection \<Rightarrow> Connection" where
  "set_wsPort p this =
     this\<lparr>c_wsPort := p, portAttributes := (portAttributes this)\<lparr>wsPort := p\<rparr>\<rparr>"

text \<open>
  \<^verbatim>\<open>get rootPath\<close>, that is \<^verbatim>\<open>this.rootURI?.fsPath\<close> with
  \<^verbatim>\<open>rootURI = vscode.Uri.joinPath(this.workspace.uri, this._rootPrefix)\<close>. The editor's
  \<^verbatim>\<open>Uri.joinPath(uri, prefix).fsPath\<close> is the parameter \<open>joinedFsPath\<close>.
\<close>

definition rootPath :: "(Uri \<Rightarrow> string \<Rightarrow> string) \<Rightarrow> Connection \<Rightarrow> string option" where
  "rootPath joinedFsPath this =
     (case workspace this of
        None \<Rightarrow> None
      | Some (WorkspaceFolder u) \<Rightarrow> Some (joinedFsPath u (rootPrefix this)))"

text \<open>\<^verbatim>\<open>_absPathInWorkspace(path)\<close>\<close>

definition absPathInWorkspace ::
  "char \<Rightarrow> (Uri \<Rightarrow> string \<Rightarrow> string) \<Rightarrow> Connection \<Rightarrow> string \<Rightarrow> bool" where
  "absPathInWorkspace sep joinedFsPath this path =
     (if truthy (rootPath joinedFsPath this)
      then PathBeginsWith sep path (orEmpty (rootPath joinedFsPath this))
      else False)"

text \<open>\<^verbatim>\<open>getFileRelativeToWorkspace(path): string | undefined\<close>\<close>

definition getFileRelativeToWorkspace ::
  "char \<Rightarrow> (Uri \<Rightarrow> string \<Rightarrow> string) \<Rightarrow> Connection \<Rightarrow> string \<Rightarrow> string option" where
  "getFileRelativeToWorkspace sep joinedFsPath this path =
     (let workspaceRoot = rootPath joinedFsPath this in
      if truthy workspaceRoot \<and> absPathInWorkspace sep joinedFsPath this path
      then Some (ConvertToPosixPath sep (drop (length (orEmpty workspaceRoot)) path))
      else None)"

text \<open>
  \<^verbatim>\<open>resetHostToDefault()\<close>. The constant \<^verbatim>\<open>DEFAULT_HOST\<close> of \<^verbatim>\<open>utils/constants\<close> is a
  parameter. The error message carries the rejected host and the default one.
\<close>

definition resetHostToDefault :: "string \<Rightarrow> Connection \<Rightarrow> Connection" where
  "resetHostToDefault DEFAULT_HOST this =
     (if host this \<noteq> DEFAULT_HOST
      then this\<lparr>host := DEFAULT_HOST,
                emitted := emitted this @
                  [ShowErrorMessage (host this) DEFAULT_HOST,
                   Fire_onShouldResetInitHost DEFAULT_HOST]\<rparr>
      else this)"

text \<open>The number of \<^verbatim>\<open>onShouldResetInitHost\<close> notifications fired so far.\<close>

definition resetNotifications :: "Connection \<Rightarrow> nat" where
  "resetNotifications this = length (filter is_resetInitHost (emitted this))"

subsection \<open>The collaborators \<^verbatim>\<open>HttpServer\<close> and \<^verbatim>\<open>WSServer\<close>\<close>

text \<open>
  Modelled from the spec: the classes \<^verbatim>\<open>HttpServer\<close> (\<^verbatim>\<open>./httpServer\<close>) and \<^verbatim>\<open>WSServer\<close>
  (\<^verbatim>\<open>./wsServer\<close>) are not among the sources. Of each the model keeps what the
  orchestrator reads and what the specification promises: the \<^verbatim>\<open>port\<close> property, the
  WebSocket port the HTTP server injects into served content, and the number of
  \<^verbatim>\<open>start\<close> calls whose bind has not been reported yet.
\<close>

record HttpServer =
  hs_port :: int
  injectorWSPort :: "int option"
  hs_binding :: nat

record WSServer =
  wss_port :: int
  wss_binding :: nat

text \<open>
  Modelled from the spec: a new sub-server is not listening, has no bind in flight and
  has been told no injector port. The \<^verbatim>\<open>port\<close> property is read by the orchestrator only
  in the listeners that run after a bind was reported, so its initial value is never
  observed.
\<close>

definition new_HttpServer :: HttpServer where
  "new_HttpServer = \<lparr>hs_port = 0, injectorWSPort = None, hs_binding = 0\<rparr>"

definition new_WSServer :: WSServer where
  "new_WSServer = \<lparr>wss_port = 0, wss_binding = 0\<rparr>"

subsection \<open>\<^verbatim>\<open>Server\<close>\<close>

record Server =
  httpServer :: HttpServer
  wsServer :: WSServer
  extensionUri :: "Uri option"
  isServerOn :: bool
  workspacePath :: "string option"
  effects :: "effect list"

definition emit :: "effect \<Rightarrow> Server \<Rightarrow> Server" where
  "emit e this = this\<lparr>effects := effects this @ [e]\<rparr>"

text \<open>
  Modelled from the spec: \<^verbatim>\<open>HttpServer.setInjectorWSPort(port[, context])\<close> "updates the value
  injected into served content referencing the WS endpoint".
\<close>

definition HttpServer_setInjectorWSPort :: "int \<Rightarrow> Uri option \<Rightarrow> Server \<Rightarrow> Server" where
  "HttpServer_setInjectorWSPort p ctx this =
     emit (Http_setInjectorWSPort p ctx)
       (this\<lparr>httpServer := (httpServer this)\<lparr>injectorWSPort := Some p\<rparr>\<rparr>)"

text \<open>
  Modelled from the spec: \<^verbatim>\<open>start(port, rootPath[, context])\<close> "attempts to bind; on success
  fires a connected event carrying the actually-bound port": a call puts one more bind in
  flight. \<^verbatim>\<open>close()\<close> is the "shutdown of the listener and any open client connections";
  the specification does not say that it withdraws a bind in flight, so the model lets
  such a bind still be reported afterwards.
\<close>

definition HttpServer_start :: "int \<Rightarrow> string \<Rightarrow> Server \<Rightarrow> Server" where
  "HttpServer_start p root this =
     emit (Http_start p root)
       (this\<lparr>httpServer := (httpServer this)\<lparr>hs_binding := Suc (hs_binding (httpServer this))\<rparr>\<rparr>)"

definition HttpServer_close :: "Server \<Rightarrow> Server" where
  "HttpServer_close this = emit Http_close this"

definition WSServer_start :: "int \<Rightarrow> string \<Rightarrow> Uri option \<Rightarrow> Server \<Rightarrow> Server" where
  "WSServer_start p root ctx this =
     emit (Ws_start p root ctx)
       (this\<lparr>wsServer := (wsServer this)\<lparr>wss_binding := Suc (wss_binding (wsServer this))\<rparr>\<rparr>)"

definition WSServer_close :: "Server \<Rightarrow> Server" where
  "WSServer_close this = emit Ws_close this"

definition WSServer_refreshBrowsers :: "Server \<Rightarrow> Server" where
  "WSServer_refreshBrowsers this = emit Ws_refreshBrowsers this"

text \<open>
  The constructor. \<^verbatim>\<open>GetWorkspacePath()\<close> of \<^verbatim>\<open>utils/utils\<close> is a parameter: the workspace
  path it returned, or \<open>None\<close> for \<^verbatim>\<open>undefined\<close>. The parameter \<^verbatim>\<open>extensionUri\<close> has the type
  \<^verbatim>\<open>vscode.Uri\<close>; the field keeps it as \<open>Some\<close>, since \<^verbatim>\<open>openServer\<close> tests the field for
  truthiness.
\<close>

definition new_Server :: "Uri \<Rightarrow> string option \<Rightarrow> Server" where
  "new_Server extensionUri' GetWorkspacePath =
     (let this = \<lparr>httpServer = new_HttpServer, wsServer = new_WSServer,
                  extensionUri = Some extensionUri', isServerOn = False,
                  workspacePath = GetWorkspacePath, effects = []\<rparr>
      in if \<not> truthy (workspacePath this)
         then emit (ShowWarningMessage
                ''Cannot find a root to start a server on. Live Server may not preview optimally.'')
                this
         else this)"

text \<open>\<^verbatim>\<open>_reloadOnAnyChange\<close> and \<^verbatim>\<open>_reloadOnSave\<close>: the settings are read at every call.\<close>

definition reloadOnAnyChange :: "Config \<Rightarrow> bool" where
  "reloadOnAnyChange cfg = (autoRefreshPreview cfg = onAnyChange)"

definition reloadOnSave :: "Config \<Rightarrow> bool" where
  "reloadOnSave cfg = (autoRefreshPreview cfg = onSave)"

text \<open>
  The listeners the constructor registers on \<^verbatim>\<open>vscode.workspace.onDidChangeTextDocument\<close>:
  two \<^verbatim>\<open>this._register(...)\<close> blocks, one after the other, with the same body. An event
  carries its \<^verbatim>\<open>contentChanges\<close>, an array (always truthy as an object).
\<close>

definition onDidChangeTextDocument_first :: "Config \<Rightarrow> 'c list \<Rightarrow> Server \<Rightarrow> Server" where
  "onDidChangeTextDocument_first cfg contentChanges this =
     (if length contentChanges > 0 \<and> reloadOnAnyChange cfg
      then WSServer_refreshBrowsers this else this)"

definition onDidChangeTextDocument_second :: "Config \<Rightarrow> 'c list \<Rightarrow> Server \<Rightarrow> Server" where
  "onDidChangeTextDocument_second cfg contentChanges this =
     (if length contentChanges > 0 \<and> reloadOnAnyChange cfg
      then WSServer_refreshBrowsers this else this)"

text \<open>
  Delivery of one document-changed event: the editor's emitter calls every registered
  listener once, in the order of registration.
\<close>

definition onDidChangeTextDocument :: "Config \<Rightarrow> 'c list \<Rightarrow> Server \<Rightarrow> Server" where
  "onDidChangeTextDocument cfg contentChanges this =
     fold (\<lambda>listener. listener cfg contentChanges)
       [onDidChangeTextDocument_first, onDidChangeTextDocument_second] this"

definition onDidSaveTextDocument :: "Config \<Rightarrow> Server \<Rightarrow> Server" where
  "onDidSaveTextDocument cfg this =
     (if reloadOnSave cfg then WSServer_refreshBrowsers this else this)"

definition onDidRenameFiles :: "Config \<Rightarrow> Server \<Rightarrow> Server" where
  "onDidRenameFiles cfg this =
     (if reloadOnAnyChange cfg \<or> reloadOnSave cfg then WSServer_refreshBrowsers this else this)"

definition onDidDeleteFiles :: "Config \<Rightarrow> Server \<Rightarrow> Server" where
  "onDidDeleteFiles cfg this =
     (if reloadOnAnyChange cfg \<or> reloadOnSave cfg then WSServer_refreshBrowsers this else this)"

definition onDidCreateFiles :: "Config \<Rightarrow> Server \<Rightarrow> Server" where
  "onDidCreateFiles cfg this =
     (if reloadOnAnyChange cfg \<or> reloadOnSave cfg then WSServer_refreshBrowsers this else this)"

text \<open>
  The server's own listener on \<^verbatim>\<open>onPortChange\<close>: \<^verbatim>\<open>if (e.ws_port)\<close> holds when the field is
  defined and not 0. \<^verbatim>\<open>setInjectorWSPort\<close> is called with one argument here.
\<close>

definition onPortChange_listener :: "PortInfo \<Rightarrow> Server \<Rightarrow> Server" where
  "onPortChange_listener e this =
     (case ws_port e of
        None \<Rightarrow> this
      | Some p \<Rightarrow> if p \<noteq> 0 then HttpServer_setInjectorWSPort p None this else this)"

text \<open>\<^verbatim>\<open>this._onPortChangeEmitter.fire(e)\<close>: the event goes out and the listener above runs.\<close>

definition fire_onPortChange :: "PortInfo \<Rightarrow> Server \<Rightarrow> Server" where
  "fire_onPortChange e this = onPortChange_listener e (emit (Fire_onPortChange e) this)"

text \<open>\<^verbatim>\<open>showServerStatusMessage(message)\<close>\<close>

definition showServerStatusMessage :: "Config \<Rightarrow> statusMessage \<Rightarrow> Server \<Rightarrow> Server" where
  "showServerStatusMessage cfg message this =
     (if showServerStatusPopUps cfg then emit (ShowInformationMessage message) this else this)"

text \<open>\<^verbatim>\<open>httpServerConnected()\<close>\<close>

definition httpServerConnected :: "Server \<Rightarrow> Server" where
  "httpServerConnected this =
     WSServer_start (hs_port (httpServer this) + 1) (orEmpty (workspacePath this))
       (extensionUri this) this"

text \<open>\<^verbatim>\<open>wsServerConnected()\<close>\<close>

definition wsServerConnected :: "Config \<Rightarrow> Server \<Rightarrow> Server" where
  "wsServerConnected cfg this =
     (let p = hs_port (httpServer this) in
      emit (Fire_onFullyConnected p)
        (showServerStatusMessage cfg (ServerOpenedOnPort p)
          (emit (StatusBar_ServerOn p) (this\<lparr>isServerOn := True\<rparr>))))"

text \<open>The listeners on the sub-servers' \<^verbatim>\<open>onConnected\<close> events; \<open>e\<close> is the bound port.\<close>

definition wsServer_onConnected :: "Config \<Rightarrow> int \<Rightarrow> Server \<Rightarrow> Server" where
  "wsServer_onConnected cfg e this =
     wsServerConnected cfg (fire_onPortChange \<lparr>port = None, ws_port = Some e\<rparr> this)"

definition httpServer_onConnected :: "int \<Rightarrow> Server \<Rightarrow> Server" where
  "httpServer_onConnected e this =
     httpServerConnected (fire_onPortChange \<lparr>port = Some e, ws_port = None\<rparr> this)"

text \<open>\<^verbatim>\<open>closeServer()\<close>\<close>

definition closeServer :: "Config \<Rightarrow> Server \<Rightarrow> Server" where
  "closeServer cfg this =
     showServerStatusMessage cfg ServerClosed
       (emit StatusBar_ServerOff
         ((WSServer_close (HttpServer_close this))\<lparr>isServerOn := False\<rparr>))"

text \<open>\<^verbatim>\<open>openServer(port): boolean\<close>: the returned flag and the server afterwards.\<close>

definition openServer :: "int \<Rightarrow> Server \<Rightarrow> bool \<times> Server" where
  "openServer p this =
     (case extensionUri this of
        Some uri \<Rightarrow>
          (True,
           HttpServer_start p (orEmpty (workspacePath this))
             (HttpServer_setInjectorWSPort (p + 1) (Some uri) this))
      | None \<Rightarrow> (False, this))"

text \<open>\<^verbatim>\<open>canGetPath(path)\<close>\<close>

definition canGetPath :: "Server \<Rightarrow> string \<Rightarrow> bool" where
  "canGetPath this path =
     (if truthy (workspacePath this) then prefix (orEmpty (workspacePath this)) path else False)"

text \<open>
  \<^verbatim>\<open>getFileRelativeToWorkspace(path): string\<close> of the server; the regular expression
  replaces every backslash.
\<close>

definition Server_getFileRelativeToWorkspace :: "Server \<Rightarrow> string \<Rightarrow> string" where
  "Server_getFileRelativeToWorkspace this path =
     (let workspaceFolder = workspacePath this in
      if truthy workspaceFolder \<and> prefix (orEmpty workspaceFolder) path
      then map (\<lambda>c. if c = CHR 0x5C then CHR ''/'' else c)
             (drop (length (orEmpty workspaceFolder)) path)
      else [])"

subsection \<open>Runs of the orchestrator\<close>

text \<open>
  What can happen to a constructed server: a call of \<^verbatim>\<open>openServer\<close> or \<^verbatim>\<open>closeServer\<close>, a
  sub-server reporting the port it bound, an event of the editor's file feed, or a change
  of the settings.
\<close>

datatype event =
    Call_openServer int
  | Call_closeServer
  | HttpServer_bound int
  | WSServer_bound int
  | DidChangeTextDocument "string list"
  | DidSaveTextDocument
  | DidRenameFiles
  | DidDeleteFiles
  | DidCreateFiles
  | DidChangeConfiguration Config

text \<open>
  Modelled from the spec: a sub-server fires its connected event only for a bind that a
  \<^verbatim>\<open>start\<close> call began (once per successful start), and its \<^verbatim>\<open>port\<close> property then holds the
  bound port. A report with no bind in flight is not a behaviour of the collaborator:
  the step is \<open>None\<close>.
\<close>

fun step :: "event \<Rightarrow> Config \<times> Server \<Rightarrow> (Config \<times> Server) option" where
  "step (Call_openServer p) (cfg, s) = Some (cfg, snd (openServer p s))"
| "step Call_closeServer (cfg, s) = Some (cfg, closeServer cfg s)"
| "step (HttpServer_bound e) (cfg, s) =
     (if hs_binding (httpServer s) = 0 then None
      else Some (cfg, httpServer_onConnected e
             (s\<lparr>httpServer := (httpServer s)\<lparr>hs_binding := hs_binding (httpServer s) - 1,
                                              hs_port := e\<rparr>\<rparr>)))"
| "step (WSServer_bound e) (cfg, s) =
     (if wss_binding (wsServer s) = 0 then None
      else Some (cfg, wsServer_onConnected cfg e
             (s\<lparr>wsServer := (wsServer s)\<lparr>wss_binding := wss_binding (wsServer s) - 1,
                                          wss_port := e\<rparr>\<rparr>)))"
| "step (DidChangeTextDocument contentChanges) (cfg, s) =
     Some (cfg, onDidChangeTextDocument cfg contentChanges s)"
| "step DidSaveTextDocument (cfg, s) = Some (cfg, onDidSaveTextDocument cfg s)"
| "step DidRenameFiles (cfg, s) = Some (cfg, onDidRenameFiles cfg s)"
| "step DidDeleteFiles (cfg, s) = Some (cfg, onDidDeleteFiles cfg s)"
| "step DidCreateFiles (cfg, s) = Some (cfg, onDidCreateFiles cfg s)"
| "step (DidChangeConfiguration cfg') (cfg, s) = Some (cfg', s)"

fun run :: "event list \<Rightarrow> Config \<times> Server \<Rightarrow> (Config \<times> Server) option" where
  "run [] st = Some st"
| "run (e # es) st = (case step e st of None \<Rightarrow> None | Some st' \<Rightarrow> run es st')"

text \<open>Counting along a run and in the log.\<close>

fun is_open :: "event \<Rightarrow> bool" where
  "is_open (Call_openServer _) = True"
| "is_open _ = False"

fun is_http_bound :: "event \<Rightarrow> bool" where
  "is_http_bound (HttpServer_bound _) = True"
| "is_http_bound _ = False"

fun is_ws_bound :: "event \<Rightarrow> bool" where
  "is_ws_bound (WSServer_bound _) = True"
| "is_ws_bound _ = False"

definition opens :: "event list \<Rightarrow> nat" where
  "opens es = length (filter is_open es)"

definition http_reports :: "event list \<Rightarrow> nat" where
  "http_reports es = length (filter is_http_bound es)"

definition ws_reports :: "event list \<Rightarrow> nat" where
  "ws_reports es = length (filter is_ws_bound es)"

definition fullyConnected_fired :: "Server \<Rightarrow> nat" where
  "fullyConnected_fired this = length (filter is_fullyConnected (effects this))"

definition refreshes :: "Server \<Rightarrow> nat" where
  "refreshes this = length (filter is_refresh (effects this))"

definition warnings :: "Server \<Rightarrow> nat" where
  "warnings this = length (filter is_warning (effects this))"

text \<open>A server that is off and has no bind in flight, as a constructed one is.\<close>

definition idle :: "Server \<Rightarrow> bool" where
  "idle this =
     (\<not> isServerOn this \<and> hs_binding (httpServer this) = 0 \<and> wss_binding (wsServer this) = 0)"

subsection \<open>A concrete configuration and server\<close>

definition example_config :: Config where
  "example_config = \<lparr>autoRefreshPreview = onAnyChange, showServerStatusPopUps = True\<rparr>"

definition example_server :: Server where
  "example_server = new_Server (Uri ''ext'') (Some ''/w'')"

text \<open>
  Connections whose host is, and is not, the default host \<^verbatim>\<open>127.0.0.1\<close>, and a connection
  for the workspace folder \<^verbatim>\<open>/a\<close> serving the sub-directory \<^verbatim>\<open>b\<close>; on a POSIX system the
  editor's \<^verbatim>\<open>Uri.joinPath(uri, prefix).fsPath\<close> joins with \<^verbatim>\<open>/\<close>.
\<close>

definition default_host_connection :: Connection where
  "default_host_connection = new_Connection None [] 3000 3001 ''127.0.0.1''"

definition custom_host_connection :: Connection where
  "custom_host_connection = new_Connection None [] 3000 3001 ''10.0.0.7''"

definition example_connection :: Connection where
  "example_connection =
     new_Connection (Some (WorkspaceFolder (Uri ''/a''))) ''b'' 3000 3001 ''127.0.0.1''"

definition posix_joinedFsPath :: "Uri \<Rightarrow> string \<Rightarrow> string" where
  "posix_joinedFsPath u rel =
     (case u of Uri base \<Rightarrow> if rel = [] then base else base @ ''/'' @ rel)"

text \<open>
  The end-to-end run of the specification, continued: \<^verbatim>\<open>openServer(8080)\<close>, the HTTP server
  binds 8080, the WebSocket server finds 8081 taken and binds 8082, a document is saved,
  the server is closed.
\<close>

definition example_run :: "event list" where
  "example_run = [Call_openServer 8080, HttpServer_bound 8080, WSServer_bound 8082,
     DidSaveTextDocument, Call_closeServer]"

section \<open>Properties\<close>

lemmas collaborator_defs =
  emit_def HttpServer_setInjectorWSPort_def HttpServer_start_def HttpServer_close_def
  WSServer_start_def WSServer_close_def WSServer_refreshBrowsers_def

lemmas listener_defs =
  onDidChangeTextDocument_first_def onDidChangeTextDocument_second_def
  onDidChangeTextDocument_def onDidSaveTextDocument_def onDidRenameFiles_def
  onDidDeleteFiles_def onDidCreateFiles_def onPortChange_listener_def fire_onPortChange_def
  showServerStatusMessage_def httpServerConnected_def wsServerConnected_def
  wsServer_onConnected_def httpServer_onConnected_def closeServer_def openServer_def

lemmas example_defs =
  example_server_def new_Server_def new_HttpServer_def new_WSServer_def truthy_def orEmpty_def

lemma run_append:
  "run (xs @ ys) st = (case run xs st of None \<Rightarrow> None | Some st' \<Rightarrow> run ys st')"
  by (induction xs arbitrary: st) (auto split: option.splits)

subsection \<open>Reload broadcasts for document changes\<close>

lemma refreshes_onDidChangeTextDocument:
  "refreshes (onDidChangeTextDocument cfg contentChanges s) =
     refreshes s + (if contentChanges \<noteq> [] \<and> autoRefreshPreview cfg = onAnyChange then 2 else 0)"
  by (simp add: onDidChangeTextDocument_def onDidChangeTextDocument_first_def
      onDidChangeTextDocument_second_def reloadOnAnyChange_def refreshes_def
      WSServer_refreshBrowsers_def emit_def)

text \<open>
  Claim C1 says that a document-changed event with non-empty content changes under the
  policy \<^verbatim>\<open>onAnyChange\<close> is answered by exactly one call of \<^verbatim>\<open>refreshBrowsers\<close>. The
  constructor registers the same listener twice, so the event is answered by two calls:
  on a freshly constructed server, one event with one content change leaves two
  broadcasts in the log.
\<close>

theorem onDidChangeTextDocument_broadcasts_twice:
  "refreshes (onDidChangeTextDocument example_config [''x''] example_server) = 2"
  by (simp add: refreshes_onDidChangeTextDocument)
     (simp add: refreshes_def example_defs example_config_def)

subsection \<open>The bound WebSocket port reaches the injector\<close>

lemma injector_wsServer_onConnected:
  "e \<noteq> 0 \<Longrightarrow> injectorWSPort (httpServer (wsServer_onConnected cfg e s)) = Some e"
  by (simp add: listener_defs collaborator_defs Let_def)

lemma effects_wsServer_onConnected:
  "e \<noteq> 0 \<Longrightarrow> filter is_setInjector (effects (wsServer_onConnected cfg e s)) =
     filter is_setInjector (effects s) @ [Http_setInjectorWSPort e None]"
  by (simp add: listener_defs collaborator_defs Let_def)

lemma injector_wsServer_onConnected_zero:
  "injectorWSPort (httpServer (wsServer_onConnected cfg 0 s)) = injectorWSPort (httpServer s)"
  by (simp add: listener_defs collaborator_defs Let_def)

lemma step_injector:
  "step ev (cfg, s) = Some (cfg', s') \<Longrightarrow> \<not> is_open ev \<Longrightarrow> \<not> is_ws_bound ev \<Longrightarrow>
     injectorWSPort (httpServer s') = injectorWSPort (httpServer s)"
  by (cases ev) (auto simp: listener_defs collaborator_defs Let_def split: if_splits)

lemma run_injector:
  "run es (cfg, s) = Some (cfg', s') \<Longrightarrow> opens es = 0 \<Longrightarrow> ws_reports es = 0 \<Longrightarrow>
     injectorWSPort (httpServer s') = injectorWSPort (httpServer s)"
proof (induction es arbitrary: cfg s)
  case Nil
  then show ?case by simp
next
  case (Cons ev es)
  from Cons.prems obtain cfg1 s1 where st: "step ev (cfg, s) = Some (cfg1, s1)"
    and rest: "run es (cfg1, s1) = Some (cfg', s')"
    by (auto split: option.splits)
  from Cons.prems have ev: "\<not> is_open ev" "\<not> is_ws_bound ev"
    and es: "opens es = 0" "ws_reports es = 0"
    by (auto simp: opens_def ws_reports_def split: if_splits)
  from Cons.IH [OF rest es] step_injector [OF st ev] show ?case by simp
qed

text \<open>
  Claim C2. When the WebSocket sub-server reports the port \<open>e\<close> it bound (a bound port is
  never 0, the one value the listener's truthiness test drops), the server calls
  \<^verbatim>\<open>setInjectorWSPort\<close> exactly once, with \<open>e\<close>, and the HTTP server's injector port is \<open>e\<close>
  afterwards. It stays \<open>e\<close> along every continuation of the run in which \<^verbatim>\<open>openServer\<close> is
  not called again and the WebSocket server reports no other bind.
\<close>

theorem wsServer_bound_port_reaches_injector:
  assumes "e \<noteq> 0"
  shows "injectorWSPort (httpServer (wsServer_onConnected cfg e s)) = Some e \<and>
     filter is_setInjector (effects (wsServer_onConnected cfg e s)) =
       filter is_setInjector (effects s) @ [Http_setInjectorWSPort e None] \<and>
     (\<forall>rest cfg' s'.
        opens rest = 0 \<and> ws_reports rest = 0 \<and>
        run (WSServer_bound e # rest) (cfg, s) = Some (cfg', s') \<longrightarrow>
        injectorWSPort (httpServer s') = Some e)"
proof (intro conjI allI impI)
  show "injectorWSPort (httpServer (wsServer_onConnected cfg e s)) = Some e"
    using assms by (rule injector_wsServer_onConnected)
  show "filter is_setInjector (effects (wsServer_onConnected cfg e s)) =
       filter is_setInjector (effects s) @ [Http_setInjectorWSPort e None]"
    using assms by (rule effects_wsServer_onConnected)
next
  fix rest cfg' s'
  assume h: "opens rest = 0 \<and> ws_reports rest = 0 \<and>
        run (WSServer_bound e # rest) (cfg, s) = Some (cfg', s')"
  then obtain s1 where s1: "step (WSServer_bound e) (cfg, s) = Some (cfg, s1)"
    and rest: "run rest (cfg, s1) = Some (cfg', s')"
    by (auto split: option.splits if_splits)
  from s1 have "injectorWSPort (httpServer s1) = Some e"
    using assms by (auto simp: injector_wsServer_onConnected split: if_splits)
  with run_injector [OF rest] h show "injectorWSPort (httpServer s') = Some e"
    by simp
qed

text \<open>
  The end-to-end run of the specification: \<^verbatim>\<open>openServer(8080)\<close>, HTTP binds 8080, the
  WebSocket server finds 8081 taken and binds 8082, a document is saved.
\<close>

theorem wsServer_bound_port_reaches_injector_witness:
  "(8082::int) \<noteq> 0 \<and>
   (\<exists>cfg' s'. run [Call_openServer 8080, HttpServer_bound 8080, WSServer_bound 8082,
                   DidSaveTextDocument] (example_config, example_server) = Some (cfg', s') \<and>
      injectorWSPort (httpServer s') = Some 8082)"
proof -
  obtain s2 where a: "run [Call_openServer 8080, HttpServer_bound 8080]
        (example_config, example_server) = Some (example_config, s2)"
    and b: "wss_binding (wsServer s2) = 1"
    by (simp add: example_defs listener_defs collaborator_defs)
  obtain cfg' s' where c: "run (WSServer_bound 8082 # [DidSaveTextDocument])
        (example_config, s2) = Some (cfg', s')"
    using b by simp
  have d: "opens [DidSaveTextDocument] = 0 \<and> ws_reports [DidSaveTextDocument] = 0"
    by (simp add: opens_def ws_reports_def)
  have nz: "(8082::int) \<noteq> 0" by simp
  have "injectorWSPort (httpServer s') = Some 8082"
    using wsServer_bound_port_reaches_injector [OF nz, of example_config s2] c d by blast
  moreover have "run ([Call_openServer 8080, HttpServer_bound 8080] @
      [WSServer_bound 8082, DidSaveTextDocument]) (example_config, example_server) = Some (cfg', s')"
    using a c by (simp only: run_append option.case)
  ultimately show ?thesis by auto
qed

subsection \<open>Resetting the host\<close>

text \<open>
  Claim C4 as stated: starting from any host, two calls of \<^verbatim>\<open>resetHostToDefault\<close> in a row
  produce exactly one host change and exactly one \<^verbatim>\<open>onShouldResetInitHost\<close> notification.
  Starting from the default host they produce none: the count of notifications does not
  grow by one, and the host is the one the connection started with.
\<close>

theorem resetHostToDefault_twice_from_default_counterexample:
  "\<not> (resetNotifications (resetHostToDefault ''127.0.0.1''
          (resetHostToDefault ''127.0.0.1'' default_host_connection)) =
        resetNotifications default_host_connection + 1) \<and>
   host (resetHostToDefault ''127.0.0.1''
          (resetHostToDefault ''127.0.0.1'' default_host_connection)) =
     host default_host_connection"
  by (simp add: resetHostToDefault_def resetNotifications_def default_host_connection_def
      new_Connection_def)

text \<open>
  Claim C4, amended. \<^verbatim>\<open>resetHostToDefault\<close> is idempotent: a second call in a row returns
  the connection unchanged. After a call the host is the default host. Two calls in a row
  change the host and fire \<^verbatim>\<open>onShouldResetInitHost\<close> exactly once when the host was not
  the default host, and not at all when it was: then a call changes nothing.
\<close>

theorem resetHostToDefault_idempotent:
  "resetHostToDefault D (resetHostToDefault D c) = resetHostToDefault D c \<and>
   host (resetHostToDefault D c) = D \<and>
   (host (resetHostToDefault D c) \<noteq> host c) = (host c \<noteq> D) \<and>
   emitted (resetHostToDefault D c) =
     emitted c @ (if host c = D then []
                  else [ShowErrorMessage (host c) D, Fire_onShouldResetInitHost D]) \<and>
   resetNotifications (resetHostToDefault D (resetHostToDefault D c)) =
     resetNotifications c + (if host c = D then 0 else 1) \<and>
   (host c = D \<longrightarrow> resetHostToDefault D c = c)"
  by (simp add: resetHostToDefault_def resetNotifications_def)

text \<open>Two calls from the host \<^verbatim>\<open>10.0.0.7\<close>, and one call from the default host.\<close>

theorem resetHostToDefault_idempotent_witness:
  "host custom_host_connection \<noteq> ''127.0.0.1'' \<and>
   resetNotifications (resetHostToDefault ''127.0.0.1''
      (resetHostToDefault ''127.0.0.1'' custom_host_connection)) = 1 \<and>
   host (resetHostToDefault ''127.0.0.1'' custom_host_connection) = ''127.0.0.1'' \<and>
   host default_host_connection = ''127.0.0.1'' \<and>
   resetHostToDefault ''127.0.0.1'' default_host_connection = default_host_connection"
proof -
  have a: "host custom_host_connection \<noteq> ''127.0.0.1''"
    by (simp add: custom_host_connection_def new_Connection_def)
  have b: "resetNotifications custom_host_connection = 0"
    by (simp add: custom_host_connection_def new_Connection_def resetNotifications_def)
  have c: "host default_host_connection = ''127.0.0.1''"
    by (simp add: default_host_connection_def new_Connection_def)
  note custom = resetHostToDefault_idempotent [of "''127.0.0.1''" custom_host_connection]
  note default = resetHostToDefault_idempotent [of "''127.0.0.1''" default_host_connection]
  from custom have "resetNotifications (resetHostToDefault ''127.0.0.1''
      (resetHostToDefault ''127.0.0.1'' custom_host_connection)) =
      resetNotifications custom_host_connection +
        (if host custom_host_connection = ''127.0.0.1'' then 0 else 1)"
    by blast
  with a b have d: "resetNotifications (resetHostToDefault ''127.0.0.1''
      (resetHostToDefault ''127.0.0.1'' custom_host_connection)) = 1"
    by simp
  from custom have e: "host (resetHostToDefault ''127.0.0.1'' custom_host_connection) =
      ''127.0.0.1''"
    by blast
  from default c have f: "resetHostToDefault ''127.0.0.1'' default_host_connection =
      default_host_connection"
    by blast
  from a c d e f show ?thesis by blast
qed

subsection \<open>Opening the server\<close>

text \<open>
  Claim C6. \<^verbatim>\<open>openServer(port)\<close> returns false exactly when the server has no extension
  context. Otherwise it returns true after two calls on the HTTP server, in this order:
  \<^verbatim>\<open>setInjectorWSPort(port + 1, extensionUri)\<close>, then \<^verbatim>\<open>start(port, workspacePath ?? "")\<close>; the
  injector port is \<open>port + 1\<close> and one more bind is in flight. Without an extension context
  the server is left as it was.
\<close>

theorem openServer_result:
  "(fst (openServer p s) = False) = (extensionUri s = None) \<and>
   (\<forall>uri. extensionUri s = Some uri \<longrightarrow>
      fst (openServer p s) = True \<and>
      effects (snd (openServer p s)) =
        effects s @ [Http_setInjectorWSPort (p + 1) (Some uri),
                     Http_start p (orEmpty (workspacePath s))] \<and>
      injectorWSPort (httpServer (snd (openServer p s))) = Some (p + 1) \<and>
      hs_binding (httpServer (snd (openServer p s))) = Suc (hs_binding (httpServer s))) \<and>
   (extensionUri s = None \<longrightarrow> snd (openServer p s) = s)"
  by (cases "extensionUri s") (simp_all add: openServer_def collaborator_defs)

text \<open>The constructed example server, and the same server without an extension context.\<close>

theorem openServer_result_witness:
  "extensionUri example_server = Some (Uri ''ext'') \<and>
   fst (openServer 8080 example_server) = True \<and>
   effects (snd (openServer 8080 example_server)) =
     [Http_setInjectorWSPort 8081 (Some (Uri ''ext'')), Http_start 8080 ''/w''] \<and>
   extensionUri (example_server\<lparr>extensionUri := None\<rparr>) = None \<and>
   openServer 8080 (example_server\<lparr>extensionUri := None\<rparr>) =
     (False, example_server\<lparr>extensionUri := None\<rparr>)"
proof -
  have a: "extensionUri example_server = Some (Uri ''ext'')" "effects example_server = []"
    "orEmpty (workspacePath example_server) = ''/w''"
    by (simp_all add: example_defs)
  have b: "extensionUri (example_server\<lparr>extensionUri := None\<rparr>) = None" by simp
  show ?thesis
    using a b openServer_result [of 8080 example_server]
      openServer_result [of 8080 "example_server\<lparr>extensionUri := None\<rparr>"]
    by (simp add: prod_eq_iff)
qed

subsection \<open>Port attributes\<close>

text \<open>
  Claim C9. \<^verbatim>\<open>providePortAttributes(port, ...)\<close> answers \<^verbatim>\<open>Silent\<close> exactly when \<open>port\<close> is the
  stored \<^verbatim>\<open>wsPort\<close> or \<^verbatim>\<open>httpPort\<close>, and \<^verbatim>\<open>undefined\<close> exactly when it is neither. Both stored
  ports start at 0, so a new provider, also the one inside a new connection whatever
  ports the connection was constructed with, answers \<^verbatim>\<open>Silent\<close> for port 0. After the
  connection's setters have run, the provider answers for the ports that were set.
\<close>

theorem providePortAttributes_silent_iff:
  "(providePortAttributes pa p pid commandLine = Some (PortAttributes Silent)) =
     (p = wsPort pa \<or> p = httpPort pa) \<and>
   (providePortAttributes pa p pid commandLine = None) =
     (p \<noteq> wsPort pa \<and> p \<noteq> httpPort pa) \<and>
   providePortAttributes new_serverPortAttributesProvider 0 pid commandLine =
     Some (PortAttributes Silent) \<and>
   providePortAttributes (portAttributes (new_Connection w rp hp wp h)) 0 pid commandLine =
     Some (PortAttributes Silent) \<and>
   providePortAttributes (portAttributes (set_wsPort q (set_httpPort r c))) p pid commandLine =
     (if p = q \<or> p = r then Some (PortAttributes Silent) else None)"
  by (simp add: providePortAttributes_def new_serverPortAttributesProvider_def
      new_Connection_def set_wsPort_def set_httpPort_def)

text \<open>
  A connection constructed with the ports 3000 and 3001: before any assignment its
  provider is silent for 0 and not for 3000; after the setters it is silent for 3000.
\<close>

theorem providePortAttributes_silent_iff_witness:
  "providePortAttributes (portAttributes example_connection) 0 None None =
     Some (PortAttributes Silent) \<and>
   providePortAttributes (portAttributes example_connection) 3000 None None = None \<and>
   providePortAttributes
     (portAttributes (set_wsPort 3001 (set_httpPort 3000 example_connection))) 3000 None None =
     Some (PortAttributes Silent)"
proof -
  have a: "wsPort (portAttributes example_connection) = 0"
    "httpPort (portAttributes example_connection) = 0"
    by (simp_all add: example_connection_def new_Connection_def
        new_serverPortAttributesProvider_def)
  show ?thesis
    using a providePortAttributes_silent_iff [of "portAttributes example_connection" 0 None None]
      providePortAttributes_silent_iff [of "portAttributes example_connection" 3000 None None
        _ _ _ _ _ 3001 3000 example_connection]
    by simp
qed

subsection \<open>The server's path helpers\<close>

text \<open>
  Claim C10 as stated: \<^verbatim>\<open>canGetPath(p)\<close> is false exactly when
  \<^verbatim>\<open>getFileRelativeToWorkspace(p)\<close> returns the empty string or \<open>p\<close> is the workspace path
  itself. For the workspace path \<^verbatim>\<open>/w\<close> and \<open>p\<close> the same path, the right-hand side holds and
  \<^verbatim>\<open>canGetPath\<close> is true.
\<close>

theorem canGetPath_workspace_itself_counterexample:
  "\<not> ((\<not> canGetPath example_server ''/w'') =
       (Server_getFileRelativeToWorkspace example_server ''/w'' = [] \<or>
        workspacePath example_server = Some ''/w''))"
  by (simp add: canGetPath_def Server_getFileRelativeToWorkspace_def example_defs)

lemma prefix_length_le_eq: "prefix w p \<Longrightarrow> length p \<le> length w \<Longrightarrow> w = p"
  by (auto simp: prefix_def)

text \<open>
  Claim C10, amended. \<^verbatim>\<open>getFileRelativeToWorkspace(p)\<close> returns the empty string exactly
  when \<^verbatim>\<open>canGetPath(p)\<close> is false or \<open>p\<close> is the workspace path itself; in particular, where
  \<^verbatim>\<open>canGetPath(p)\<close> is false the relative path is empty.
\<close>

theorem getFileRelativeToWorkspace_empty_iff:
  "(Server_getFileRelativeToWorkspace s p = []) =
     (\<not> canGetPath s p \<or> workspacePath s = Some p) \<and>
   (\<not> canGetPath s p \<longrightarrow> Server_getFileRelativeToWorkspace s p = [])"
  by (cases "workspacePath s")
     (auto simp: canGetPath_def Server_getFileRelativeToWorkspace_def truthy_def orEmpty_def
        Let_def dest: prefix_length_le_eq)

text \<open>
  With the workspace path \<^verbatim>\<open>/w\<close>: a path outside it, the workspace path itself, and a path
  inside it.
\<close>

theorem getFileRelativeToWorkspace_empty_iff_witness:
  "\<not> canGetPath example_server ''/x'' \<and>
   Server_getFileRelativeToWorkspace example_server ''/x'' = [] \<and>
   workspacePath example_server = Some ''/w'' \<and>
   Server_getFileRelativeToWorkspace example_server ''/w'' = [] \<and>
   canGetPath example_server ''/w/a'' \<and>
   Server_getFileRelativeToWorkspace example_server ''/w/a'' \<noteq> []"
proof -
  have a: "\<not> canGetPath example_server ''/x''"
    by (simp add: canGetPath_def example_defs)
  have b: "workspacePath example_server = Some ''/w''"
    by (simp add: example_defs)
  have c: "canGetPath example_server ''/w/a''"
    by (simp add: canGetPath_def example_defs)
  show ?thesis
    using a b c getFileRelativeToWorkspace_empty_iff [of example_server "''/x''"]
      getFileRelativeToWorkspace_empty_iff [of example_server "''/w''"]
      getFileRelativeToWorkspace_empty_iff [of example_server "''/w/a''"]
    by simp
qed

subsection \<open>Runs: what no step changes, and what the steps count\<close>

lemma step_frame:
  "step ev (cfg, s) = Some (cfg', s') \<Longrightarrow>
     extensionUri s' = extensionUri s \<and> workspacePath s' = workspacePath s \<and>
     warnings s' = warnings s"
  by (cases ev)
     (auto simp: listener_defs collaborator_defs warnings_def Let_def
        split: if_splits option.splits)

lemma run_frame:
  "run es (cfg, s) = Some (cfg', s') \<Longrightarrow>
     extensionUri s' = extensionUri s \<and> workspacePath s' = workspacePath s \<and>
     warnings s' = warnings s"
proof (induction es arbitrary: cfg s)
  case Nil
  then show ?case by simp
next
  case (Cons ev es)
  from Cons.prems obtain cfg1 s1 where st: "step ev (cfg, s) = Some (cfg1, s1)"
    and rest: "run es (cfg1, s1) = Some (cfg', s')"
    by (auto split: option.splits)
  from Cons.IH [OF rest] step_frame [OF st] show ?case by simp
qed

lemma step_counts:
  "step ev (cfg, s) = Some (cfg', s') \<Longrightarrow>
     fullyConnected_fired s' = fullyConnected_fired s + (if is_ws_bound ev then 1 else 0) \<and>
     (if is_ws_bound ev then 1 else 0) + wss_binding (wsServer s') \<le> (if is_http_bound ev then 1 else 0) + wss_binding (wsServer s) \<and>
     (if is_http_bound ev then 1 else 0) + hs_binding (httpServer s') \<le> (if is_open ev then 1 else 0) + hs_binding (httpServer s) \<and>
     (isServerOn s' \<longrightarrow> isServerOn s \<or> is_ws_bound ev)"
  by (cases ev)
     (auto simp: listener_defs collaborator_defs fullyConnected_fired_def ws_reports_def
        http_reports_def opens_def Let_def split: if_splits option.splits)

lemma counts_Cons:
  "ws_reports (ev # es) = (if is_ws_bound ev then 1 else 0) + ws_reports es"
  "http_reports (ev # es) = (if is_http_bound ev then 1 else 0) + http_reports es"
  "opens (ev # es) = (if is_open ev then 1 else 0) + opens es"
  by (simp_all add: ws_reports_def http_reports_def opens_def)

lemma run_counts:
  "run es (cfg, s) = Some (cfg', s') \<Longrightarrow>
     fullyConnected_fired s' = fullyConnected_fired s + ws_reports es \<and>
     ws_reports es + wss_binding (wsServer s') \<le> http_reports es + wss_binding (wsServer s) \<and>
     http_reports es + hs_binding (httpServer s') \<le> opens es + hs_binding (httpServer s) \<and>
     (isServerOn s' \<longrightarrow> isServerOn s \<or> 0 < ws_reports es)"
proof (induction es arbitrary: cfg s)
  case Nil
  then have "s' = s" by simp
  moreover have "ws_reports [] = 0" "http_reports [] = 0" "opens [] = 0"
    by (simp_all add: ws_reports_def http_reports_def opens_def)
  ultimately show ?case by simp
next
  case (Cons ev es)
  from Cons.prems obtain cfg1 s1 where st: "step ev (cfg, s) = Some (cfg1, s1)"
    and rest: "run es (cfg1, s1) = Some (cfg', s')"
    by (auto split: option.splits)
  note one = step_counts [OF st] and more = Cons.IH [OF rest]
  have "fullyConnected_fired s' = fullyConnected_fired s + ws_reports (ev # es)"
    using one more by (simp add: counts_Cons)
  moreover have "ws_reports (ev # es) + wss_binding (wsServer s') \<le>
      http_reports (ev # es) + wss_binding (wsServer s)"
    using one more by (simp add: counts_Cons)
  moreover have "http_reports (ev # es) + hs_binding (httpServer s') \<le>
      opens (ev # es) + hs_binding (httpServer s)"
    using one more by (simp add: counts_Cons)
  moreover have "isServerOn s' \<longrightarrow> isServerOn s \<or> 0 < ws_reports (ev # es)"
    using one more by (auto simp: counts_Cons)
  ultimately show ?case by blast
qed

lemma run_take:
  "run es st = Some st' \<Longrightarrow> \<exists>st''. run (take n es) st = Some st''"
proof (induction es arbitrary: st n)
  case Nil
  then show ?case by simp
next
  case (Cons ev es)
  then show ?case by (cases n) (auto split: option.splits)
qed

lemma open_then_binds:
  assumes "extensionUri s = Some uri"
  shows "\<exists>s1 s2 s3.
      run [Call_openServer p] (cfg, s) = Some (cfg, s1) \<and>
      run [Call_openServer p, HttpServer_bound hp] (cfg, s) = Some (cfg, s2) \<and>
      run [Call_openServer p, HttpServer_bound hp, WSServer_bound wp] (cfg, s) = Some (cfg, s3) \<and>
      isServerOn s1 = isServerOn s \<and> isServerOn s2 = isServerOn s \<and> isServerOn s3 \<and>
      filter is_fullyConnected (effects s1) = filter is_fullyConnected (effects s) \<and>
      filter is_fullyConnected (effects s2) = filter is_fullyConnected (effects s) \<and>
      filter is_fullyConnected (effects s3) =
        filter is_fullyConnected (effects s) @ [Fire_onFullyConnected hp]"
  using assms
  by (simp add: listener_defs collaborator_defs Let_def)

lemma extensionUri_new_Server: "extensionUri (new_Server uri wp) = Some uri"
  by (simp add: new_Server_def emit_def Let_def)

lemma workspacePath_new_Server: "workspacePath (new_Server uri wp) = wp"
  by (simp add: new_Server_def emit_def Let_def)

lemma effects_new_Server:
  "effects (new_Server uri wp) =
     (if truthy wp then []
      else [ShowWarningMessage
        ''Cannot find a root to start a server on. Live Server may not preview optimally.''])"
  by (simp add: new_Server_def emit_def Let_def)

lemma idle_new_Server: "idle (new_Server uri wp)"
  by (simp add: idle_def new_Server_def emit_def Let_def new_HttpServer_def new_WSServer_def)


subsection \<open>Fully connected\<close>

text \<open>
  Claim C5. Take a server that is off with no bind in flight (as a constructed one is)
  and any run from it in which the sub-servers report only binds that were
  started. At every point \<open>n\<close> of the run, the number of \<^verbatim>\<open>onFullyConnected\<close> events fired
  since the start is the number of WebSocket bind reports; that number never exceeds the
  number of HTTP bind reports, which never exceeds the number of \<^verbatim>\<open>openServer\<close> calls; and
  \<^verbatim>\<open>isServerOn\<close> holds only if a WebSocket bind was reported (hence an HTTP bind before it).
  For one \<^verbatim>\<open>openServer\<close> call followed by the two reports: the server is still off and
  nothing was fired after the call and after the HTTP report, and after the WebSocket
  report the server is on and \<^verbatim>\<open>onFullyConnected\<close> was fired exactly once, with the HTTP
  port.
\<close>

theorem onFullyConnected_after_both_binds:
  assumes "idle s" and "run es (cfg, s) = Some st"
  shows "(\<exists>cfg' s'. run (take n es) (cfg, s) = Some (cfg', s') \<and>
      fullyConnected_fired s' = fullyConnected_fired s + ws_reports (take n es) \<and>
      ws_reports (take n es) \<le> http_reports (take n es) \<and>
      http_reports (take n es) \<le> opens (take n es) \<and>
      (isServerOn s' \<longrightarrow> 0 < ws_reports (take n es))) \<and>
    (\<forall>uri. extensionUri s = Some uri \<longrightarrow>
      (\<exists>s1 s2 s3.
        run [Call_openServer p] (cfg, s) = Some (cfg, s1) \<and>
        run [Call_openServer p, HttpServer_bound hp] (cfg, s) = Some (cfg, s2) \<and>
        run [Call_openServer p, HttpServer_bound hp, WSServer_bound wp] (cfg, s) =
          Some (cfg, s3) \<and>
        \<not> isServerOn s1 \<and> \<not> isServerOn s2 \<and> isServerOn s3 \<and>
        fullyConnected_fired s1 = fullyConnected_fired s \<and>
        fullyConnected_fired s2 = fullyConnected_fired s \<and>
        filter is_fullyConnected (effects s3) =
          filter is_fullyConnected (effects s) @ [Fire_onFullyConnected hp]))"
proof (intro conjI allI impI)
  from run_take [OF assms(2), of n] obtain st' where "run (take n es) (cfg, s) = Some st'"
    by blast
  then obtain cfg' s' where r: "run (take n es) (cfg, s) = Some (cfg', s')"
    by (cases st') simp
  from run_counts [OF r] assms(1)
  have "fullyConnected_fired s' = fullyConnected_fired s + ws_reports (take n es)"
    and "ws_reports (take n es) \<le> http_reports (take n es)"
    and "http_reports (take n es) \<le> opens (take n es)"
    and "isServerOn s' \<longrightarrow> 0 < ws_reports (take n es)"
    by (auto simp: idle_def)
  with r show "\<exists>cfg' s'. run (take n es) (cfg, s) = Some (cfg', s') \<and>
      fullyConnected_fired s' = fullyConnected_fired s + ws_reports (take n es) \<and>
      ws_reports (take n es) \<le> http_reports (take n es) \<and>
      http_reports (take n es) \<le> opens (take n es) \<and>
      (isServerOn s' \<longrightarrow> 0 < ws_reports (take n es))"
    by blast
next
  fix uri
  assume u: "extensionUri s = Some uri"
  from open_then_binds [OF u, of p cfg hp wp] obtain s1 s2 s3 where
    h: "run [Call_openServer p] (cfg, s) = Some (cfg, s1)"
      "run [Call_openServer p, HttpServer_bound hp] (cfg, s) = Some (cfg, s2)"
      "run [Call_openServer p, HttpServer_bound hp, WSServer_bound wp] (cfg, s) = Some (cfg, s3)"
      "isServerOn s1 = isServerOn s" "isServerOn s2 = isServerOn s" "isServerOn s3"
      "filter is_fullyConnected (effects s1) = filter is_fullyConnected (effects s)"
      "filter is_fullyConnected (effects s2) = filter is_fullyConnected (effects s)"
      "filter is_fullyConnected (effects s3) =
        filter is_fullyConnected (effects s) @ [Fire_onFullyConnected hp]"
    by blast
  from h assms(1) have "\<not> isServerOn s1" "\<not> isServerOn s2"
    "fullyConnected_fired s1 = fullyConnected_fired s"
    "fullyConnected_fired s2 = fullyConnected_fired s"
    by (simp_all add: idle_def fullyConnected_fired_def)
  with h show "\<exists>s1 s2 s3.
        run [Call_openServer p] (cfg, s) = Some (cfg, s1) \<and>
        run [Call_openServer p, HttpServer_bound hp] (cfg, s) = Some (cfg, s2) \<and>
        run [Call_openServer p, HttpServer_bound hp, WSServer_bound wp] (cfg, s) =
          Some (cfg, s3) \<and>
        \<not> isServerOn s1 \<and> \<not> isServerOn s2 \<and> isServerOn s3 \<and>
        fullyConnected_fired s1 = fullyConnected_fired s \<and>
        fullyConnected_fired s2 = fullyConnected_fired s \<and>
        filter is_fullyConnected (effects s3) =
          filter is_fullyConnected (effects s) @ [Fire_onFullyConnected hp]"
    by blast
qed

text \<open>
  The example run: after two events (call, HTTP bound) the server is off and nothing was
  fired; after the third (WebSocket bound) it is on and the event was fired once.
\<close>

theorem onFullyConnected_after_both_binds_witness:
  "idle example_server \<and>
   (\<exists>st. run example_run (example_config, example_server) = Some st) \<and>
   (\<exists>cfg' s'. run (take 2 example_run) (example_config, example_server) = Some (cfg', s') \<and>
      fullyConnected_fired s' = 0 \<and> \<not> isServerOn s') \<and>
   (\<exists>cfg' s'. run (take 3 example_run) (example_config, example_server) = Some (cfg', s') \<and>
      fullyConnected_fired s' = 1 \<and> isServerOn s')"
proof -
  have i: "idle example_server"
    unfolding example_server_def by (rule idle_new_Server)
  obtain st where r: "run example_run (example_config, example_server) = Some st"
    by (simp add: example_run_def example_defs listener_defs collaborator_defs)
  have u: "extensionUri example_server = Some (Uri ''ext'')"
    unfolding example_server_def by (rule extensionUri_new_Server)
  have z: "fullyConnected_fired example_server = 0"
    by (simp add: fullyConnected_fired_def example_server_def effects_new_Server)
  have c2: "ws_reports (take 2 example_run) = 0" and c3: "ws_reports (take 3 example_run) = 1"
    and t3: "take 3 example_run =
      [Call_openServer 8080, HttpServer_bound 8080, WSServer_bound 8082]"
    by (simp_all add: example_run_def ws_reports_def)
  note two = onFullyConnected_after_both_binds [OF i r, of 2 8080 8080 8082]
  note three = onFullyConnected_after_both_binds [OF i r, of 3 8080 8080 8082]
  from two c2 z have a: "\<exists>cfg' s'.
      run (take 2 example_run) (example_config, example_server) = Some (cfg', s') \<and>
      fullyConnected_fired s' = 0 \<and> \<not> isServerOn s'"
    by auto
  from three u obtain s3 where
    s3: "run [Call_openServer 8080, HttpServer_bound 8080, WSServer_bound 8082]
        (example_config, example_server) = Some (example_config, s3)"
    and on: "isServerOn s3"
    by blast
  from three c3 z obtain cfg' s' where
    b: "run (take 3 example_run) (example_config, example_server) = Some (cfg', s')"
    and f: "fullyConnected_fired s' = 1"
    by auto
  from b s3 t3 have "s' = s3" by simp
  with b f on have "\<exists>cfg' s'.
      run (take 3 example_run) (example_config, example_server) = Some (cfg', s') \<and>
      fullyConnected_fired s' = 1 \<and> isServerOn s'"
    by blast
  with i r a show ?thesis by blast
qed

subsection \<open>The extension context of a constructed server\<close>

text \<open>
  Claim C8. The constructor takes a \<^verbatim>\<open>vscode.Uri\<close> and stores it in the read-only field
  \<^verbatim>\<open>_extensionUri\<close>, and no step of a run assigns the field. So on a constructed server, and
  on every server a run leads to from it, \<^verbatim>\<open>openServer(port)\<close> returns true for every port.
\<close>

theorem openServer_true_after_construction:
  assumes "run es (cfg, new_Server uri wp) = Some (cfg', s')"
  shows "fst (openServer p s') = True \<and> extensionUri s' = Some uri \<and>
    fst (openServer p (new_Server uri wp)) = True"
proof -
  from run_frame [OF assms] have "extensionUri s' = Some uri"
    by (simp add: extensionUri_new_Server)
  then show ?thesis
    by (simp add: openServer_def extensionUri_new_Server)
qed

text \<open>The example server after the example run, and as constructed.\<close>

theorem openServer_true_after_construction_witness:
  "\<exists>cfg' s'. run example_run (example_config, new_Server (Uri ''ext'') (Some ''/w'')) =
      Some (cfg', s') \<and>
    fst (openServer 3000 s') = True \<and>
    fst (openServer 8080 (new_Server (Uri ''ext'') (Some ''/w''))) = True"
proof -
  obtain cfg' s' where r:
    "run example_run (example_config, new_Server (Uri ''ext'') (Some ''/w'')) = Some (cfg', s')"
    by (simp add: example_run_def example_defs listener_defs collaborator_defs)
  from openServer_true_after_construction [OF r, of 3000]
    openServer_true_after_construction [OF r, of 8080] r
  show ?thesis by blast
qed

subsection \<open>No workspace path\<close>

text \<open>
  Claim C7. When \<^verbatim>\<open>GetWorkspacePath()\<close> returns no path (\<^verbatim>\<open>undefined\<close>, or the empty string,
  which the constructor's test treats alike), the constructor surfaces exactly one
  warning. On the constructed server and after every run from it: \<^verbatim>\<open>canGetPath(p)\<close> is false
  and \<^verbatim>\<open>getFileRelativeToWorkspace(p)\<close> is the empty string for every path, the number of
  warnings surfaced is still one, and \<^verbatim>\<open>openServer(port)\<close> returns true and starts the HTTP
  server on \<open>port\<close> with the root path \<^verbatim>\<open>""\<close>.
\<close>

theorem missing_workspace_degrades:
  assumes "wp = None \<or> wp = Some []"
  shows "filter is_warning (effects (new_Server uri wp)) =
      [ShowWarningMessage
        ''Cannot find a root to start a server on. Live Server may not preview optimally.''] \<and>
    (\<forall>es cfg cfg' s'. run es (cfg, new_Server uri wp) = Some (cfg', s') \<longrightarrow>
       canGetPath s' path = False \<and>
       Server_getFileRelativeToWorkspace s' path = [] \<and>
       warnings s' = 1 \<and>
       fst (openServer p s') = True \<and>
       effects (snd (openServer p s')) =
         effects s' @ [Http_setInjectorWSPort (p + 1) (Some uri), Http_start p []])"
proof (intro conjI allI impI)
  from assms have nt: "\<not> truthy wp" by (auto simp: truthy_def)
  then show "filter is_warning (effects (new_Server uri wp)) =
      [ShowWarningMessage
        ''Cannot find a root to start a server on. Live Server may not preview optimally.'']"
    by (simp add: effects_new_Server)
  fix es cfg cfg' s'
  assume r: "run es (cfg, new_Server uri wp) = Some (cfg', s')"
  from run_frame [OF r] have f: "extensionUri s' = Some uri" "workspacePath s' = wp"
    "warnings s' = warnings (new_Server uri wp)"
    by (simp_all add: extensionUri_new_Server workspacePath_new_Server)
  from f nt show "canGetPath s' path = False"
    by (simp add: canGetPath_def)
  from f nt show "Server_getFileRelativeToWorkspace s' path = []"
    by (simp add: Server_getFileRelativeToWorkspace_def)
  from f nt show "warnings s' = 1"
    by (simp add: warnings_def effects_new_Server)
  from f show "fst (openServer p s') = True"
    by (simp add: openServer_def)
  from f assms show "effects (snd (openServer p s')) =
         effects s' @ [Http_setInjectorWSPort (p + 1) (Some uri), Http_start p []]"
    by (auto simp: openServer_def collaborator_defs orEmpty_def)
qed

text \<open>A server constructed without a workspace path, after the example run.\<close>

theorem missing_workspace_degrades_witness:
  "\<exists>cfg' s'. run example_run (example_config, new_Server (Uri ''ext'') None) = Some (cfg', s') \<and>
     canGetPath s' ''/w/index.html'' = False \<and>
     Server_getFileRelativeToWorkspace s' ''/w/index.html'' = [] \<and>
     warnings s' = 1 \<and> fst (openServer 8080 s') = True"
proof -
  have h: "(None :: string option) = None \<or> (None :: string option) = Some []" by simp
  obtain cfg' s' where r:
    "run example_run (example_config, new_Server (Uri ''ext'') None) = Some (cfg', s')"
    by (simp add: example_run_def example_defs listener_defs collaborator_defs)
  from missing_workspace_degrades [OF h, of "Uri ''ext''" "''/w/index.html''" 8080] r
  show ?thesis by blast
qed

subsection \<open>The connection's relative paths\<close>

lemma rootPath_None:
  "rootPath jf c = None \<Longrightarrow> getFileRelativeToWorkspace sep jf c p = None"
  by (simp add: getFileRelativeToWorkspace_def truthy_def)

lemma getFileRelativeToWorkspace_root:
  "rootPath jf c = Some r \<Longrightarrow>
     getFileRelativeToWorkspace sep jf c p =
       (if r \<noteq> [] \<and> PathBeginsWith sep p r
        then Some (ConvertToPosixPath sep (drop (length r) p)) else None)"
  by (simp add: getFileRelativeToWorkspace_def absPathInWorkspace_def truthy_def orEmpty_def)

lemma PathBeginsWith_sibling:
  "r \<noteq> [] \<Longrightarrow> last r \<noteq> sep \<Longrightarrow> x \<noteq> sep \<Longrightarrow> \<not> PathBeginsWith sep (r @ x # ys) r"
  by (simp add: PathBeginsWith_def)

lemma PathBeginsWith_child:
  "PathBeginsWith sep (r @ sep # ys) r"
  by (simp add: PathBeginsWith_def)

text \<open>
  Claim C3. Let the connection's root path be \<open>r\<close>, not empty. For a path \<open>p\<close> strictly
  inside the root (\<open>r\<close> is a prefix of \<open>p\<close> that ends at a segment boundary, and \<open>p\<close> is not
  \<open>r\<close>), \<^verbatim>\<open>getFileRelativeToWorkspace(p)\<close> returns what follows \<open>r\<close> in \<open>p\<close>, with the separators
  written \<^verbatim>\<open>/\<close>. For a path that is not inside the root, also when there is no root, it
  returns \<^verbatim>\<open>undefined\<close>. In particular a child \<open>r/ys\<close> gives \<open>/ys\<close>, and a sibling that only
  shares the string \<open>r\<close> as a prefix (as \<^verbatim>\<open>/a/bc\<close> for the root \<^verbatim>\<open>/a/b\<close>) gives \<^verbatim>\<open>undefined\<close>.
\<close>

theorem getFileRelativeToWorkspace_inside_root:
  "(\<forall>r. rootPath jf c = Some r \<and> r \<noteq> [] \<and> PathBeginsWith sep p r \<and> p \<noteq> r \<longrightarrow>
      (\<exists>rest. rest \<noteq> [] \<and> p = r @ rest \<and>
         getFileRelativeToWorkspace sep jf c p = Some (ConvertToPosixPath sep rest))) \<and>
   ((\<forall>r. rootPath jf c = Some r \<longrightarrow> \<not> PathBeginsWith sep p r) \<longrightarrow>
      getFileRelativeToWorkspace sep jf c p = None) \<and>
   (\<forall>r ys. rootPath jf c = Some r \<and> r \<noteq> [] \<longrightarrow>
      getFileRelativeToWorkspace sep jf c (r @ sep # ys) =
        Some (CHR ''/'' # ConvertToPosixPath sep ys)) \<and>
   (\<forall>r x ys. rootPath jf c = Some r \<and> r \<noteq> [] \<and> last r \<noteq> sep \<and> x \<noteq> sep \<longrightarrow>
      getFileRelativeToWorkspace sep jf c (r @ x # ys) = None)"
proof (intro conjI allI impI)
  fix r
  assume h: "rootPath jf c = Some r \<and> r \<noteq> [] \<and> PathBeginsWith sep p r \<and> p \<noteq> r"
  then have "prefix r p" by (simp add: PathBeginsWith_def)
  then obtain rest where rest: "p = r @ rest" by (auto simp: prefix_def)
  with h have "rest \<noteq> []" by auto
  moreover from rest h
  have "getFileRelativeToWorkspace sep jf c p = Some (ConvertToPosixPath sep rest)"
    by (simp add: getFileRelativeToWorkspace_root)
  ultimately show "\<exists>rest. rest \<noteq> [] \<and> p = r @ rest \<and>
         getFileRelativeToWorkspace sep jf c p = Some (ConvertToPosixPath sep rest)"
    using rest by blast
next
  assume h: "\<forall>r. rootPath jf c = Some r \<longrightarrow> \<not> PathBeginsWith sep p r"
  show "getFileRelativeToWorkspace sep jf c p = None"
  proof (cases "rootPath jf c")
    case None
    then show ?thesis by (rule rootPath_None)
  next
    case (Some r)
    with h show ?thesis by (simp add: getFileRelativeToWorkspace_root)
  qed
next
  fix r ys
  assume "rootPath jf c = Some r \<and> r \<noteq> []"
  then show "getFileRelativeToWorkspace sep jf c (r @ sep # ys) =
      Some (CHR ''/'' # ConvertToPosixPath sep ys)"
    by (simp add: getFileRelativeToWorkspace_root PathBeginsWith_child ConvertToPosixPath_def)
next
  fix r x ys
  assume h: "rootPath jf c = Some r \<and> r \<noteq> [] \<and> last r \<noteq> sep \<and> x \<noteq> sep"
  then have "\<not> PathBeginsWith sep (r @ x # ys) r"
    by (simp add: PathBeginsWith_sibling)
  with h show "getFileRelativeToWorkspace sep jf c (r @ x # ys) = None"
    by (simp add: getFileRelativeToWorkspace_root)
qed

text \<open>
  The root \<^verbatim>\<open>/a/b\<close> on a POSIX system: a file below it, the child \<^verbatim>\<open>/a/b/c\<close>, the sibling
  \<^verbatim>\<open>/a/bc\<close>, and a path elsewhere.
\<close>

theorem getFileRelativeToWorkspace_inside_root_witness:
  "rootPath posix_joinedFsPath example_connection = Some ''/a/b'' \<and>
   PathBeginsWith (CHR ''/'') ''/a/b/c/index.html'' ''/a/b'' \<and>
   getFileRelativeToWorkspace (CHR ''/'') posix_joinedFsPath example_connection
     ''/a/b/c/index.html'' = Some ''/c/index.html'' \<and>
   getFileRelativeToWorkspace (CHR ''/'') posix_joinedFsPath example_connection ''/a/b/c'' =
     Some ''/c'' \<and>
   getFileRelativeToWorkspace (CHR ''/'') posix_joinedFsPath example_connection ''/a/bc'' = None \<and>
   \<not> PathBeginsWith (CHR ''/'') ''/x/y'' ''/a/b'' \<and>
   getFileRelativeToWorkspace (CHR ''/'') posix_joinedFsPath example_connection ''/x/y'' = None"
proof -
  have r: "rootPath posix_joinedFsPath example_connection = Some ''/a/b''"
    by (simp add: rootPath_def example_connection_def new_Connection_def posix_joinedFsPath_def)
  have inside: "PathBeginsWith (CHR ''/'') ''/a/b/c/index.html'' ''/a/b''"
    and outside: "\<not> PathBeginsWith (CHR ''/'') ''/x/y'' ''/a/b''"
    by (simp_all add: PathBeginsWith_def)
  note t = getFileRelativeToWorkspace_inside_root
    [of posix_joinedFsPath example_connection "CHR ''/''"]
  from t [of "''/a/b/c/index.html''"] r inside
  have a: "getFileRelativeToWorkspace (CHR ''/'') posix_joinedFsPath example_connection
     ''/a/b/c/index.html'' = Some ''/c/index.html''"
    by (auto simp: ConvertToPosixPath_def)
  from t [of "[]"] r
  have "getFileRelativeToWorkspace (CHR ''/'') posix_joinedFsPath example_connection
     (''/a/b'' @ CHR ''/'' # ''c'') = Some (CHR ''/'' # ConvertToPosixPath (CHR ''/'') ''c'')"
    by blast
  then have b: "getFileRelativeToWorkspace (CHR ''/'') posix_joinedFsPath example_connection
     ''/a/b/c'' = Some ''/c''"
    by (simp add: ConvertToPosixPath_def)
  have "last ''/a/b'' \<noteq> CHR ''/'' \<and> CHR ''c'' \<noteq> CHR ''/''" by simp
  with t [of "[]"] r
  have "getFileRelativeToWorkspace (CHR ''/'') posix_joinedFsPath example_connection
     (''/a/b'' @ CHR ''c'' # []) = None"
    by blast
  then have c: "getFileRelativeToWorkspace (CHR ''/'') posix_joinedFsPath example_connection
     ''/a/bc'' = None"
    by simp
  from t [of "''/x/y''"] r outside
  have d: "getFileRelativeToWorkspace (CHR ''/'') posix_joinedFsPath example_connection
     ''/x/y'' = None"
    by simp
  from r inside a b c outside d show ?thesis by blast
qed

end
